theory Spec2Isabelle
  imports Main
begin

section \<open>Python values\<close>

text \<open>
  The component is dynamically typed glue: configuration dictionaries, service payloads and
  instrument states hold arbitrary Python values. The values the code can tell apart are
  modelled by one datatype. Floats are left out. A dictionary with string keys is an
  association list read with \<open>map_of\<close>. Strings are ASCII, one \<open>char\<close> per
  character.
\<close>

datatype pyval =
    PNone
  | PBool bool
  | PInt int
  | PStr string
  | PList "pyval list"
  | PDict "(string \<times> pyval) list"

type_synonym pydict = "(string \<times> pyval) list"

datatype error = TypeError | KeyError | AttributeError | UpdateFailed

text \<open>\<^verbatim>\<open>d.get(key, default)\<close>\<close>

definition dict_get :: "pydict \<Rightarrow> string \<Rightarrow> pyval \<Rightarrow> pyval" where
  "dict_get d key dflt = (case map_of d key of None \<Rightarrow> dflt | Some v \<Rightarrow> v)"

text \<open>Truth value of a Python object, as \<^verbatim>\<open>if x\<close> and \<^verbatim>\<open>not x\<close> test it.\<close>

fun truthy :: "pyval \<Rightarrow> bool" where
  "truthy PNone = False"
| "truthy (PBool b) = b"
| "truthy (PInt i) = (i \<noteq> 0)"
| "truthy (PStr s) = (s \<noteq> [])"
| "truthy (PList xs) = (xs \<noteq> [])"
| "truthy (PDict d) = (d \<noteq> [])"

text \<open>
  The number a value stands for in an ordering comparison with an \<^verbatim>\<open>int\<close>
  (\<^verbatim>\<open>bool\<close> is a subclass of \<^verbatim>\<open>int\<close>); every other value makes the
  comparison raise \<^verbatim>\<open>TypeError\<close>.
\<close>

fun as_number :: "pyval \<Rightarrow> int option" where
  "as_number (PInt i) = Some i"
| "as_number (PBool b) = Some (if b then 1 else 0)"
| "as_number _ = None"

text \<open>\<^verbatim>\<open>a == b\<close>: numbers compare by value across \<^verbatim>\<open>bool\<close> and \<^verbatim>\<open>int\<close>.\<close>

definition py_eq :: "pyval \<Rightarrow> pyval \<Rightarrow> bool" where
  "py_eq a b =
     (case (as_number a, as_number b) of
        (Some i, Some j) \<Rightarrow> i = j
      | _ \<Rightarrow> a = b)"

text \<open>\<^verbatim>\<open>str.upper()\<close> and \<^verbatim>\<open>str.lower()\<close> on ASCII text.\<close>

definition is_lower :: "char \<Rightarrow> bool" where
  "is_lower c = (97 \<le> (of_char c :: nat) \<and> (of_char c :: nat) \<le> 122)"

definition is_upper :: "char \<Rightarrow> bool" where
  "is_upper c = (65 \<le> (of_char c :: nat) \<and> (of_char c :: nat) \<le> 90)"

definition char_upper :: "char \<Rightarrow> char" where
  "char_upper c = (if is_lower c then char_of ((of_char c :: nat) - 32) else c)"

definition char_lower :: "char \<Rightarrow> char" where
  "char_lower c = (if is_upper c then char_of ((of_char c :: nat) + 32) else c)"

definition upper :: "string \<Rightarrow> string" where
  "upper s = map char_upper s"

definition lower :: "string \<Rightarrow> string" where
  "lower s = map char_lower s"

section \<open>Constants of the component\<close>

text \<open>
  The module \<^verbatim>\<open>const.py\<close> is imported by \<^verbatim>\<open>__init__.py\<close>; the values of its
  constants are parameters of the model.
\<close>

record const =
  DOMAIN :: string
  CONF_NAME :: string
  CONF_VEHICLE :: string
  CONF_MUTABLE :: string
  CONF_SPIN :: string
  CONF_REPORT_REQUEST :: string
  CONF_REPORT_SCAN_INTERVAL :: string
  DEFAULT_REPORT_UPDATE_INTERVAL :: pyval
  CONF_CONVERT :: string
  CONF_SCANDINAVIAN_MILES :: string
  CONF_NO_CONVERSION :: string
  CONF_IMPERIAL_UNITS :: string

section \<open>Data model\<close>

record config_entry =
  options :: pydict
  entry_data :: pydict

text \<open>
  \<^verbatim>\<open>Vehicle\<close> and \<^verbatim>\<open>Instrument\<close> belong to the client library; the fields are the
  attributes this module reads.
\<close>

record vehicle =
  vin :: string
  charging :: bool

record instrument =
  i_vehicle :: vehicle
  component :: string
  attr :: string
  state :: pyval
  icon :: "string option"

text \<open>
  \<^verbatim>\<open>VolkswagenCoordinator\<close>. \<open>logged_in\<close> is \<^verbatim>\<open>connection.logged_in\<close>. \<open>c_data\<close> is the
  snapshot \<^verbatim>\<open>DataUpdateCoordinator.data\<close>: \<open>None\<close> until a refresh has stored a list.
  \<open>report_last_updated\<close> is a \<^verbatim>\<open>datetime\<close>, counted in microseconds.
\<close>

record volkswagen_coordinator =
  c_vin :: string
  entry :: config_entry
  platforms :: "string list"
  report_last_updated :: "int option"
  logged_in :: bool
  c_data :: "instrument list option"
  last_update_success :: bool

section \<open>The report request\<close>

text \<open>
  What the outside world does during one call of \<^verbatim>\<open>report_request\<close>: the two readings
  of \<^verbatim>\<open>datetime.now()\<close>, the outcome of \<^verbatim>\<open>connection.doLogin()\<close> (the value of
  \<^verbatim>\<open>connection.logged_in\<close> afterwards, or an exception) and the outcome of
  \<^verbatim>\<open>vehicle.request_report()\<close>.
\<close>

datatype 'a outcome = Raised | Returned 'a

record world =
  now_gate :: int
  do_login :: "bool outcome"
  request_report :: "pyval outcome"
  now_done :: int

datatype call = DoLogin | RequestReport

datatype exit =
    Suppressed
  | LoginFailed
  | ReportFailed
  | Reported
  | Swallowed
  | Propagated error

record report_result =
  after :: volkswagen_coordinator
  calls :: "call list"
  exit :: exit

definition microseconds_per_day :: int where
  "microseconds_per_day = 86400000000"

text \<open>\<^verbatim>\<open>timedelta.days\<close> of the difference of two \<^verbatim>\<open>datetime\<close>s: the floor.\<close>

definition days :: "int \<Rightarrow> int \<Rightarrow> int" where
  "days later earlier = (later - earlier) div microseconds_per_day"

definition report_interval :: "const \<Rightarrow> config_entry \<Rightarrow> pyval" where
  "report_interval k e =
     dict_get (options e) (CONF_REPORT_SCAN_INTERVAL k) (DEFAULT_REPORT_UPDATE_INTERVAL k)"

definition days_since_last_update :: "world \<Rightarrow> volkswagen_coordinator \<Rightarrow> int" where
  "days_since_last_update w c =
     (case report_last_updated c of
        None \<Rightarrow> 1
      | Some t \<Rightarrow> days (now_gate w) t)"

text \<open>The body of the \<^verbatim>\<open>try\<close>, once the login check has passed.\<close>

definition submit_report :: "world \<Rightarrow> volkswagen_coordinator \<Rightarrow> call list \<Rightarrow> report_result" where
  "submit_report w c made =
     (case request_report w of
        Raised \<Rightarrow> \<lparr>after = c, calls = made @ [RequestReport], exit = Swallowed\<rparr>
      | Returned r \<Rightarrow>
          if \<not> truthy r
          then \<lparr>after = c, calls = made @ [RequestReport], exit = ReportFailed\<rparr>
          else \<lparr>after = c\<lparr>report_last_updated := Some (now_done w)\<rparr>,
                calls = made @ [RequestReport], exit = Reported\<rparr>)"

definition report_request :: "const \<Rightarrow> world \<Rightarrow> volkswagen_coordinator \<Rightarrow> report_result" where
  "report_request k w c =
     (case as_number (report_interval k (entry c)) of
        None \<Rightarrow> \<lparr>after = c, calls = [], exit = Propagated TypeError\<rparr>
      | Some n \<Rightarrow>
          if days_since_last_update w c < n
          then \<lparr>after = c, calls = [], exit = Suppressed\<rparr>
          else if \<not> logged_in c
          then (case do_login w of
                  Raised \<Rightarrow> \<lparr>after = c, calls = [DoLogin], exit = Swallowed\<rparr>
                | Returned li \<Rightarrow>
                    if \<not> li
                    then \<lparr>after = c\<lparr>logged_in := li\<rparr>, calls = [DoLogin], exit = LoginFailed\<rparr>
                    else submit_report w (c\<lparr>logged_in := li\<rparr>) [DoLogin])
          else submit_report w c [])"

text \<open>
  Every refresh cycle calls \<^verbatim>\<open>report_request\<close> on the coordinator the cycle before
  left (line 443): the results of successive calls, one world per call.
\<close>

fun report_requests :: "const \<Rightarrow> world list \<Rightarrow> volkswagen_coordinator \<Rightarrow> report_result list" where
  "report_requests k [] c = []"
| "report_requests k (w # ws) c =
     (let r = report_request k w c in r # report_requests k ws (after r))"

section \<open>Selecting the configured vehicle\<close>

text \<open>
  Line 419, \<^verbatim>\<open>self.vin = entry.data[CONF_VEHICLE].upper()\<close>: a missing key raises
  \<^verbatim>\<open>KeyError\<close>, a value that is not a string has no \<^verbatim>\<open>upper\<close>.
\<close>

definition coordinator_vin :: "const \<Rightarrow> config_entry \<Rightarrow> error + string" where
  "coordinator_vin k e =
     (case map_of (entry_data e) (CONF_VEHICLE k) of
        None \<Rightarrow> Inl KeyError
      | Some (PStr s) \<Rightarrow> Inr (upper s)
      | Some _ \<Rightarrow> Inl AttributeError)"

text \<open>
  \<^verbatim>\<open>update\<close>: \<open>fetched\<close> is what \<^verbatim>\<open>await self.connection.update()\<close> returned,
  \<open>vehicles\<close> is \<^verbatim>\<open>self.connection.vehicles\<close>. The loop returns the first match.
\<close>

definition update :: "bool \<Rightarrow> vehicle list \<Rightarrow> volkswagen_coordinator \<Rightarrow> vehicle option" where
  "update fetched vehicles c =
     (if \<not> fetched then None
      else find (\<lambda>v. upper (vin v) = c_vin c) vehicles)"

text \<open>
  Equality of two identifiers up to letter case, said directly: the same length, and at
  each position the same character or a letter and its capital.
\<close>

definition same_letter :: "char \<Rightarrow> char \<Rightarrow> bool" where
  "same_letter a b =
     (a = b \<or> (is_lower a \<and> b = char_upper a) \<or> (is_lower b \<and> a = char_upper b))"

definition equal_ignoring_case :: "string \<Rightarrow> string \<Rightarrow> bool" where
  "equal_ignoring_case s t = list_all2 same_letter s t"

section \<open>Unit conversion\<close>

definition get_convert_conf :: "const \<Rightarrow> config_entry \<Rightarrow> pyval" where
  "get_convert_conf k e =
     (if truthy (dict_get (options e) (CONF_SCANDINAVIAN_MILES k)
                  (dict_get (entry_data e) (CONF_SCANDINAVIAN_MILES k) (PBool False)))
      then PStr (CONF_SCANDINAVIAN_MILES k)
      else PStr (CONF_NO_CONVERSION k))"

text \<open>Lines 446 to 448 of \<^verbatim>\<open>_async_update_data\<close>.\<close>

definition convert_conf :: "const \<Rightarrow> config_entry \<Rightarrow> pyval" where
  "convert_conf k e =
     dict_get (options e) (CONF_CONVERT k)
       (dict_get (entry_data e) (CONF_CONVERT k) (get_convert_conf k e))"

text \<open>The keyword arguments of \<^verbatim>\<open>vehicle.dashboard(...)\<close>, lines 450 to 455.\<close>

record dashboard_args =
  mutable :: pyval
  spin :: pyval
  miles :: bool
  scandinavian_miles :: bool

definition dashboard_call :: "const \<Rightarrow> config_entry \<Rightarrow> dashboard_args" where
  "dashboard_call k e =
     \<lparr>mutable = dict_get (entry_data e) (CONF_MUTABLE k) PNone,
      spin = dict_get (entry_data e) (CONF_SPIN k) PNone,
      miles = py_eq (convert_conf k e) (PStr (CONF_IMPERIAL_UNITS k)),
      scandinavian_miles = py_eq (convert_conf k e) (PStr (CONF_SCANDINAVIAN_MILES k))\<rparr>"

text \<open>
  \<^verbatim>\<open>_async_update_data\<close>. \<open>dashboard\<close> stands for the client library's
  \<^verbatim>\<open>vehicle.dashboard(...).instruments\<close>. The result is the coordinator afterwards and
  the instrument list or the exception raised.
\<close>

definition async_update_data ::
  "const \<Rightarrow> (vehicle \<Rightarrow> dashboard_args \<Rightarrow> instrument list) \<Rightarrow> bool \<Rightarrow> vehicle list \<Rightarrow> world \<Rightarrow>
     volkswagen_coordinator \<Rightarrow> volkswagen_coordinator \<times> (error + instrument list)" where
  "async_update_data k dashboard fetched vehicles w c =
     (case update fetched vehicles c of
        None \<Rightarrow> (c, Inl UpdateFailed)
      | Some v \<Rightarrow>
          if truthy (dict_get (options (entry c)) (CONF_REPORT_REQUEST k) (PBool False))
          then (let r = report_request k w c in
                case exit r of
                  Propagated err \<Rightarrow> (after r, Inl err)
                | _ \<Rightarrow> (after r, Inr (dashboard v (dashboard_call k (entry c)))))
          else (c, Inr (dashboard v (dashboard_call k (entry c)))))"

section \<open>The data holder\<close>

text \<open>
  \<^verbatim>\<open>VolkswagenData\<close>. The sets \<^verbatim>\<open>vehicles\<close> and \<^verbatim>\<open>instruments\<close> are lists in the
  order in which a scan visits them.
\<close>

record volkswagen_data =
  vehicles :: "vehicle list"
  instruments :: "instrument list"
  config :: pydict
  names :: pyval
  coordinator :: "volkswagen_coordinator option"

definition data_init ::
  "const \<Rightarrow> pydict \<Rightarrow> volkswagen_coordinator option \<Rightarrow> error + volkswagen_data" where
  "data_init k cfg coord =
     (case dict_get cfg (DOMAIN k) (PDict cfg) of
        PDict d \<Rightarrow>
          Inr \<lparr>vehicles = [], instruments = [], config = d,
               names = dict_get d (CONF_NAME k) PNone, coordinator = coord\<rparr>
      | _ \<Rightarrow> Inl AttributeError)"

definition matches :: "string \<Rightarrow> string \<Rightarrow> string \<Rightarrow> instrument \<Rightarrow> bool" where
  "matches v cap a i = (vin (i_vehicle i) = v \<and> component i = cap \<and> attr i = a)"

text \<open>
  \<^verbatim>\<open>VolkswagenData.instrument\<close>: \<^verbatim>\<open>next(generator, None)\<close> over the coordinator's
  snapshot when there is a coordinator, over the static set otherwise. Iterating a snapshot
  that is \<^verbatim>\<open>None\<close> raises \<^verbatim>\<open>TypeError\<close>.
\<close>

definition data_instrument ::
  "volkswagen_data \<Rightarrow> string \<Rightarrow> string \<Rightarrow> string \<Rightarrow> error + instrument option" where
  "data_instrument d v cap a =
     (case coordinator d of
        Some c \<Rightarrow>
          (case c_data c of
             None \<Rightarrow> Inl TypeError
           | Some snapshot \<Rightarrow> Inr (find (matches v cap a) snapshot))
      | None \<Rightarrow> Inr (find (matches v cap a) (instruments d)))"

text \<open>
  \<^verbatim>\<open>VolkswagenData.vehicle_name\<close>. After the \<^verbatim>\<open>isinstance(self.names, str)\<close> test,
  \<^verbatim>\<open>vehicle.vin.lower() in self.names\<close> is evaluated only for a non-empty identifier:
  key membership for a dictionary, element membership for a list, \<^verbatim>\<open>TypeError\<close> for a
  value that is not a container. \<^verbatim>\<open>self.names[key]\<close> on a list raises
  \<^verbatim>\<open>TypeError\<close>.
\<close>

definition vehicle_name :: "volkswagen_data \<Rightarrow> vehicle \<Rightarrow> error + pyval" where
  "vehicle_name d v =
     (case names d of
        PStr s \<Rightarrow> Inr (PStr s)
      | PDict m \<Rightarrow>
          (if vin v \<noteq> [] then
             (case map_of m (lower (vin v)) of
                Some n \<Rightarrow> Inr n
              | None \<Rightarrow> Inr (PStr (vin v)))
           else Inr (PStr []))
      | PList xs \<Rightarrow>
          (if vin v \<noteq> [] then
             (if list_ex (\<lambda>x. x = PStr (lower (vin v))) xs then Inl TypeError
              else Inr (PStr (vin v)))
           else Inr (PStr []))
      | _ \<Rightarrow> (if vin v \<noteq> [] then Inl TypeError else Inr (PStr [])))"

section \<open>The entity\<close>

text \<open>\<^verbatim>\<open>VolkswagenEntity\<close>: what the constructor stores.\<close>

record volkswagen_entity =
  e_data :: volkswagen_data
  e_vin :: string
  e_component :: string
  attribute :: string

definition entity_instrument :: "volkswagen_entity \<Rightarrow> error + instrument option" where
  "entity_instrument e = data_instrument (e_data e) (e_vin e) (e_component e) (attribute e)"

text \<open>
  The constructor ends with \<^verbatim>\<open>self.instrument.callback = update_callbacks\<close>, which
  raises \<^verbatim>\<open>AttributeError\<close> when the lookup finds nothing.
\<close>

definition entity_init ::
  "volkswagen_data \<Rightarrow> string \<Rightarrow> string \<Rightarrow> string \<Rightarrow> error + volkswagen_entity" where
  "entity_init d v cap a =
     (let e = \<lparr>e_data = d, e_vin = v, e_component = cap, attribute = a\<rparr> in
      case entity_instrument e of
        Inl err \<Rightarrow> Inl err
      | Inr None \<Rightarrow> Inl AttributeError
      | Inr (Some i) \<Rightarrow> Inr e)"

text \<open>
  \<^verbatim>\<open>icon\<close>. Home Assistant's \<^verbatim>\<open>icon_for_battery_level\<close> is the parameter
  \<open>battery_icon\<close>, applied to the instrument's state and the vehicle's charging flag.
\<close>

definition entity_icon ::
  "(pyval \<Rightarrow> bool \<Rightarrow> error + string) \<Rightarrow> volkswagen_entity \<Rightarrow> error + string option" where
  "entity_icon battery_icon e =
     (case entity_instrument e of
        Inl err \<Rightarrow> Inl err
      | Inr None \<Rightarrow> Inl AttributeError
      | Inr (Some i) \<Rightarrow>
          if attr i \<in> set [''battery_level'', ''charging'']
          then (case battery_icon (state i) (charging (i_vehicle i)) of
                  Inl err \<Rightarrow> Inl err
                | Inr s \<Rightarrow> Inr (Some s))
          else Inr (icon i))"

definition unique_id :: "volkswagen_entity \<Rightarrow> string" where
  "unique_id e = e_vin e @ ''-'' @ e_component e @ ''-'' @ attribute e"

text \<open>
  A refresh cycle stores the new instrument list in the coordinator
  (\<^verbatim>\<open>DataUpdateCoordinator\<close> assigns \<^verbatim>\<open>self.data\<close>); an entity sees it through its
  data holder.
\<close>

definition store_snapshot :: "instrument list \<Rightarrow> volkswagen_data \<Rightarrow> volkswagen_data" where
  "store_snapshot snapshot d =
     d\<lparr>coordinator :=
         map_option (\<lambda>c. c\<lparr>c_data := Some snapshot, last_update_success := True\<rparr>)
           (coordinator d)\<rparr>"

definition after_refresh :: "instrument list \<Rightarrow> volkswagen_entity \<Rightarrow> volkswagen_entity" where
  "after_refresh snapshot e = e\<lparr>e_data := store_snapshot snapshot (e_data e)\<rparr>"

section \<open>Service schemas\<close>

text \<open>
  The schemas are \<^verbatim>\<open>voluptuous\<close> values. A validator maps a value to the validated
  (possibly coerced) value, or refuses it (\<^verbatim>\<open>vol.Invalid\<close>, here \<open>None\<close>). The three
  helpers of Home Assistant's \<^verbatim>\<open>config_validation\<close> are parameters.
\<close>

record config_validation =
  cv_string :: "pyval \<Rightarrow> pyval option"
  cv_positive_int :: "pyval \<Rightarrow> pyval option"
  cv_boolean :: "pyval \<Rightarrow> pyval option"

text \<open>
  \<open>VolRange\<close> carries the four arguments \<^verbatim>\<open>min\<close>, \<^verbatim>\<open>max\<close>, \<^verbatim>\<open>min_included\<close>
  and \<^verbatim>\<open>max_included\<close> of \<^verbatim>\<open>vol.Range\<close>.
\<close>

datatype validator =
    CvString
  | CvPositiveInt
  | CvBoolean
  | VolLength nat nat
  | VolRange "int option" "int option" bool bool
  | VolIn "pyval list"
  | VolAll "validator list"
  | VolAny "validator list"

fun py_len :: "pyval \<Rightarrow> nat option" where
  "py_len (PStr s) = Some (length s)"
| "py_len (PList xs) = Some (length xs)"
| "py_len (PDict d) = Some (length d)"
| "py_len _ = None"

text \<open>
  \<^verbatim>\<open>vol.Range\<close>: a bound that is \<^verbatim>\<open>None\<close> is not compared; comparing a value that
  is not a number raises \<^verbatim>\<open>TypeError\<close>, which the validator turns into a refusal.
\<close>

definition range_check :: "int option \<Rightarrow> int option \<Rightarrow> bool \<Rightarrow> bool \<Rightarrow> pyval \<Rightarrow> bool" where
  "range_check mn mx min_included max_included v =
     ((case mn of
         None \<Rightarrow> True
       | Some m \<Rightarrow>
           (case as_number v of
              None \<Rightarrow> False
            | Some x \<Rightarrow> if min_included then m \<le> x else m < x))
      \<and>
      (case mx of
         None \<Rightarrow> True
       | Some m \<Rightarrow>
           (case as_number v of
              None \<Rightarrow> False
            | Some x \<Rightarrow> if max_included then x \<le> m else x < m)))"

fun validate :: "config_validation \<Rightarrow> validator \<Rightarrow> pyval \<Rightarrow> pyval option"
  and validate_all :: "config_validation \<Rightarrow> validator list \<Rightarrow> pyval \<Rightarrow> pyval option"
  and validate_any :: "config_validation \<Rightarrow> validator list \<Rightarrow> pyval \<Rightarrow> pyval option"
where
  "validate cv CvString v = cv_string cv v"
| "validate cv CvPositiveInt v = cv_positive_int cv v"
| "validate cv CvBoolean v = cv_boolean cv v"
| "validate cv (VolLength mn mx) v =
     (case py_len v of
        None \<Rightarrow> None
      | Some n \<Rightarrow> if n < mn \<or> mx < n then None else Some v)"
| "validate cv (VolRange mn mx min_included max_included) v =
     (if range_check mn mx min_included max_included v then Some v else None)"
| "validate cv (VolIn container) v =
     (if list_ex (py_eq v) container then Some v else None)"
| "validate cv (VolAll vs) v = validate_all cv vs v"
| "validate cv (VolAny vs) v = validate_any cv vs v"
| "validate_all cv [] v = Some v"
| "validate_all cv (x # xs) v =
     (case validate cv x v of
        None \<Rightarrow> None
      | Some v' \<Rightarrow> validate_all cv xs v')"
| "validate_any cv [] v = None"
| "validate_any cv (x # xs) v =
     (case validate cv x v of
        Some v' \<Rightarrow> Some v'
      | None \<Rightarrow> validate_any cv xs v)"

datatype marker = Required | Optional

datatype extra_keys = PREVENT_EXTRA | ALLOW_EXTRA | REMOVE_EXTRA

record schema =
  keys :: "(marker \<times> string \<times> validator) list"
  extra :: extra_keys

datatype invalid =
    RequiredKeyNotProvided string
  | InvalidValue string
  | ExtraKeysNotAllowed string

definition find_validator :: "schema \<Rightarrow> string \<Rightarrow> validator option" where
  "find_validator s key = map_of (map snd (keys s)) key"

text \<open>
  Calling a dictionary schema on a payload: every item whose key the schema declares is
  validated, an undeclared item is treated as \<open>extra\<close> says, and every \<open>Required\<close> key
  the payload does not hold is an error. The call raises when there is any error.
\<close>

fun validate_items :: "config_validation \<Rightarrow> schema \<Rightarrow> pydict \<Rightarrow> invalid list \<times> pydict" where
  "validate_items cv s [] = ([], [])"
| "validate_items cv s ((key, x) # rest) =
     (let (errors, out) = validate_items cv s rest in
      case find_validator s key of
        None \<Rightarrow>
          (case extra s of
             ALLOW_EXTRA \<Rightarrow> (errors, (key, x) # out)
           | REMOVE_EXTRA \<Rightarrow> (errors, out)
           | PREVENT_EXTRA \<Rightarrow> (ExtraKeysNotAllowed key # errors, out))
      | Some v \<Rightarrow>
          (case validate cv v x of
             None \<Rightarrow> (InvalidValue key # errors, out)
           | Some y \<Rightarrow> (errors, (key, y) # out)))"

definition missing_required :: "schema \<Rightarrow> pydict \<Rightarrow> invalid list" where
  "missing_required s payload =
     map (\<lambda>(m, key, v). RequiredKeyNotProvided key)
       (filter (\<lambda>(m, key, v). m = Required \<and> map_of payload key = None) (keys s))"

definition schema_call :: "config_validation \<Rightarrow> schema \<Rightarrow> pydict \<Rightarrow> invalid list + pydict" where
  "schema_call cv s payload =
     (let (errors, out) = validate_items cv s payload;
          errors' = errors @ missing_required s payload
      in if errors' = [] then Inr out else Inl errors')"

definition levels :: "pyval list" where
  "levels = map PInt [0, 10, 20, 30, 40, 50, 60, 70, 80, 90, 100]"

definition SERVICE_SET_TIMER_BASIC_SETTINGS_SCHEMA :: schema where
  "SERVICE_SET_TIMER_BASIC_SETTINGS_SCHEMA =
     \<lparr>keys =
        [(Optional, ''device_id'', VolAll [CvString, VolLength 32 32]),
         (Optional, ''min_level'', VolIn levels),
         (Optional, ''target_temperature_celsius'', VolAny [CvString, CvPositiveInt]),
         (Optional, ''target_temperature_fahrenheit'', VolAny [CvString, CvPositiveInt])],
      extra = ALLOW_EXTRA\<rparr>"

definition SERVICE_SET_CHARGER_MAX_CURRENT_SCHEMA :: schema where
  "SERVICE_SET_CHARGER_MAX_CURRENT_SCHEMA =
     \<lparr>keys =
        [(Optional, ''device_id'', VolAll [CvString, VolLength 32 32]),
         (Optional, ''max_current'',
            VolIn [PInt 0, PInt 5, PInt 10, PInt 13, PInt 16, PInt 32,
                   PStr ''0'', PStr ''5'', PStr ''10'', PStr ''13'', PStr ''16'', PStr ''32'',
                   PStr ''max''])],
      extra = ALLOW_EXTRA\<rparr>"

text \<open>
  \<^verbatim>\<open>vol.Range(min_included=1, max_included=10)\<close> passes \<open>1\<close> and \<open>10\<close> as the two
  flags (both true) and leaves \<^verbatim>\<open>min\<close> and \<^verbatim>\<open>max\<close> at \<^verbatim>\<open>None\<close>.
\<close>

definition SERVICE_UPDATE_SCHEDULE_SCHEMA :: schema where
  "SERVICE_UPDATE_SCHEDULE_SCHEMA =
     \<lparr>keys =
        [(Required, ''device_id'', VolAll [CvString, VolLength 32 32]),
         (Required, ''timer_id'', VolIn [PInt 1, PInt 2, PInt 3]),
         (Optional, ''charging_profile'', VolAll [CvPositiveInt, VolRange None None True True]),
         (Optional, ''enabled'', VolAll [CvBoolean]),
         (Optional, ''frequency'', VolIn [PStr ''cyclic'', PStr ''single'']),
         (Optional, ''departure_time'', VolAll [CvString]),
         (Optional, ''departure_datetime'', VolAll [CvString]),
         (Optional, ''weekday_mask'', VolAll [CvString, VolLength 7 7])],
      extra = ALLOW_EXTRA\<rparr>"

definition SERVICE_UPDATE_PROFILE_SCHEMA :: schema where
  "SERVICE_UPDATE_PROFILE_SCHEMA =
     \<lparr>keys =
        [(Required, ''device_id'', VolAll [CvString, VolLength 32 32]),
         (Required, ''profile_id'', VolAll [CvPositiveInt, VolRange None None True True]),
         (Required, ''profile_name'', VolAll [CvString]),
         (Optional, ''charging'', VolAll [CvBoolean]),
         (Optional, ''climatisation'', VolAll [CvBoolean]),
         (Optional, ''target_level'', VolIn levels),
         (Optional, ''charge_max_current'',
            VolIn [PInt 0, PInt 5, PInt 10, PInt 13, PInt 16, PInt 32,
                   PStr ''0'', PStr ''5'', PStr ''10'', PStr ''13'', PStr ''16'', PStr ''32'']),
         (Optional, ''night_rate'', VolAll [CvBoolean]),
         (Optional, ''night_rate_start'', VolAll [CvString]),
         (Optional, ''night_rate_end'', VolAll [CvString])],
      extra = ALLOW_EXTRA\<rparr>"

text \<open>
  \<^verbatim>\<open>register_services\<close> registers each service with its schema. Home Assistant applies
  the schema to the data of a call and runs the service function on the result only when
  the schema did not raise.
\<close>

datatype service =
    SERVICE_SET_TIMER_BASIC_SETTINGS
  | SERVICE_UPDATE_SCHEDULE
  | SERVICE_UPDATE_PROFILE
  | SERVICE_SET_CHARGER_MAX_CURRENT

fun registered_schema :: "service \<Rightarrow> schema" where
  "registered_schema SERVICE_SET_TIMER_BASIC_SETTINGS = SERVICE_SET_TIMER_BASIC_SETTINGS_SCHEMA"
| "registered_schema SERVICE_UPDATE_SCHEDULE = SERVICE_UPDATE_SCHEDULE_SCHEMA"
| "registered_schema SERVICE_UPDATE_PROFILE = SERVICE_UPDATE_PROFILE_SCHEMA"
| "registered_schema SERVICE_SET_CHARGER_MAX_CURRENT = SERVICE_SET_CHARGER_MAX_CURRENT_SCHEMA"

definition service_call :: "config_validation \<Rightarrow> service \<Rightarrow> pydict \<Rightarrow> invalid list + pydict" where
  "service_call cv svc payload = schema_call cv (registered_schema svc) payload"

text \<open>Taking one key out of a payload.\<close>

definition without :: "string \<Rightarrow> pydict \<Rightarrow> pydict" where
  "without key payload = filter (\<lambda>(k', x). k' \<noteq> key) payload"

section \<open>The helpers of Home Assistant at concrete values\<close>

text \<open>
  To evaluate the model on concrete inputs the parameters need values. \<open>cv_typed\<close> is the
  three validation helpers on values that already have the wanted type, which the helpers
  return unchanged; it refuses every other value, whereas the helpers also coerce some of
  them (a number to its decimal string, a numeral string to a number).
\<close>

definition cv_typed :: config_validation where
  "cv_typed =
     \<lparr>cv_string = (\<lambda>v. case v of PStr s \<Rightarrow> Some (PStr s) | _ \<Rightarrow> None),
      cv_positive_int =
        (\<lambda>v. case v of PInt i \<Rightarrow> if 0 \<le> i then Some (PInt i) else None | _ \<Rightarrow> None),
      cv_boolean = (\<lambda>v. case v of PBool b \<Rightarrow> Some (PBool b) | _ \<Rightarrow> None)\<rparr>"

text \<open>Decimal digits of a natural number, \<^verbatim>\<open>str(n)\<close>.\<close>

function str_nat :: "nat \<Rightarrow> string" where
  "str_nat n =
     (if n < 10 then [char_of (48 + n)]
      else str_nat (n div 10) @ [char_of (48 + n mod 10)])"
  by pat_completeness auto
termination
  by (relation "measure id") auto

declare str_nat.simps [simp del]

text \<open>
  \<^verbatim>\<open>icon_for_battery_level(battery_level, charging)\<close> for a level that is absent or a
  whole number. The helper rounds \<^verbatim>\<open>battery_level / 20 - 0.01\<close> and
  \<^verbatim>\<open>battery_level / 10 - 0.01\<close> to the nearest whole number; the quotients below are
  those roundings. A level of another type makes its comparisons raise \<^verbatim>\<open>TypeError\<close>.
\<close>

definition icon_for_battery_level :: "pyval \<Rightarrow> bool \<Rightarrow> error + string" where
  "icon_for_battery_level battery_level is_charging =
     (if battery_level = PNone then Inr ''mdi:battery-unknown''
      else
        case as_number battery_level of
          None \<Rightarrow> Inl TypeError
        | Some b \<Rightarrow>
            if is_charging \<and> 10 < b
            then Inr (''mdi:battery-charging-'' @ str_nat (nat ((5 * b + 49) div 100 * 20)))
            else if is_charging then Inr ''mdi:battery-outline''
            else if b \<le> 5 then Inr ''mdi:battery-alert''
            else if 5 < b \<and> b < 95
            then Inr (''mdi:battery-'' @ str_nat (nat ((10 * b + 49) div 100 * 10)))
            else Inr ''mdi:battery'')"

section \<open>Values for evaluation\<close>

text \<open>
  Values for the constants of \<^verbatim>\<open>const.py\<close>, and a coordinator that has never sent a
  report request, for the statements that are evaluated at a concrete input.
\<close>

definition sample_const :: const where
  "sample_const =
     \<lparr>DOMAIN = ''volkswagencarnet'',
      CONF_NAME = ''name'',
      CONF_VEHICLE = ''vehicle'',
      CONF_MUTABLE = ''mutable'',
      CONF_SPIN = ''spin'',
      CONF_REPORT_REQUEST = ''report_request'',
      CONF_REPORT_SCAN_INTERVAL = ''report_scan_interval'',
      DEFAULT_REPORT_UPDATE_INTERVAL = PInt 1,
      CONF_CONVERT = ''convert'',
      CONF_SCANDINAVIAN_MILES = ''scandinavian_miles'',
      CONF_NO_CONVERSION = ''no_conversion'',
      CONF_IMPERIAL_UNITS = ''imperial''\<rparr>"

definition sample_coordinator :: "pydict \<Rightarrow> volkswagen_coordinator" where
  "sample_coordinator opts =
     \<lparr>c_vin = ''WVWZZZ3CZ9E123456'',
      entry = \<lparr>options = opts, entry_data = [(''vehicle'', PStr ''wvwzzz3cz9e123456'')]\<rparr>,
      platforms = [],
      report_last_updated = None,
      logged_in = True,
      c_data = None,
      last_update_success = False\<rparr>"

definition sample_world :: "int \<Rightarrow> world" where
  "sample_world t =
     \<lparr>now_gate = t, do_login = Returned True, request_report = Returned (PBool True),
      now_done = t + 2000000\<rparr>"

definition sample_vehicle :: "bool \<Rightarrow> vehicle" where
  "sample_vehicle ch = \<lparr>vin = ''WVWZZZ3CZ9E123456'', charging = ch\<rparr>"

definition sample_instrument :: "string \<Rightarrow> pyval \<Rightarrow> string option \<Rightarrow> instrument" where
  "sample_instrument a s ic =
     \<lparr>i_vehicle = sample_vehicle True, component = ''sensor'', attr = a, state = s,
      icon = ic\<rparr>"

text \<open>A data holder whose coordinator holds the given snapshot, and an entity on it.\<close>

definition sample_data :: "instrument list option \<Rightarrow> volkswagen_data" where
  "sample_data snapshot =
     \<lparr>vehicles = [], instruments = [], config = [], names = PNone,
      coordinator = Some ((sample_coordinator [])\<lparr>c_data := snapshot\<rparr>)\<rparr>"

definition sample_entity :: "instrument list option \<Rightarrow> string \<Rightarrow> volkswagen_entity" where
  "sample_entity snapshot a =
     \<lparr>e_data = sample_data snapshot, e_vin = ''WVWZZZ3CZ9E123456'', e_component = ''sensor'',
      attribute = a\<rparr>"

section \<open>The interval check of the report request\<close>

lemma int_div_less_iff:
  fixes a q n :: int
  assumes "0 < q"
  shows "a div q < n \<longleftrightarrow> a < n * q"
proof -
  have "(a + (- n) * q) div q = - n + a div q"
    using assms by (simp only: div_mult_self1 [of q a "- n"])
  then have "(a - n * q) div q = a div q - n"
    by simp
  moreover have "(a - n * q) div q < 0 \<longleftrightarrow> a - n * q < 0"
    using assms by (rule pos_imp_zdiv_neg_iff)
  ultimately show ?thesis
    by auto
qed

lemma days_less_iff:
  "days later earlier < n \<longleftrightarrow> later - earlier < n * microseconds_per_day"
  unfolding days_def by (rule int_div_less_iff) (simp add: microseconds_per_day_def)

lemma days_one_day: "days t (t - microseconds_per_day) = 1"
  by (simp add: days_def microseconds_per_day_def)

lemma entry_after: "entry (after (report_request k w c)) = entry c"
  by (simp add: report_request_def submit_report_def split: outcome.splits option.splits)

lemma suppressed_when_recent:
  assumes "as_number (report_interval k (entry c)) = Some n"
      and "report_last_updated c = Some t"
      and "now_gate w - t < n * microseconds_per_day"
  shows "report_request k w c = \<lparr>after = c, calls = [], exit = Suppressed\<rparr>"
  using assms by (simp add: report_request_def days_since_last_update_def days_less_iff)

lemma first_call:
  assumes "as_number (report_interval k (entry c)) = Some n"
      and "report_last_updated c = None"
  shows "exit (report_request k w c) = Suppressed \<longleftrightarrow> 1 < n"
    and "RequestReport \<in> set (calls (report_request k w c)) \<longleftrightarrow>
           n \<le> 1 \<and> (logged_in c \<or> do_login w = Returned True)"
    and "calls (report_request k w c) =
           calls (report_request k w
                    (c\<lparr>report_last_updated := Some (now_gate w - microseconds_per_day)\<rparr>))"
  using assms
  by (auto simp add: report_request_def submit_report_def days_since_last_update_def
        report_interval_def days_one_day split: outcome.splits)

text \<open>
  What the interval check does, for a configured interval that is the number \<open>n\<close>. A
  call made when \<open>report_last_updated\<close> has never been set counts as exactly one day
  elapsed: it is suppressed exactly when \<open>1 < n\<close>, and it makes the same calls as a
  coordinator whose last report is exactly one day old. A call made less than \<open>n\<close> days
  after a successful request returns without any call and leaves the coordinator as it was.
\<close>

lemma interval_check:
  assumes "as_number (report_interval k (entry c)) = Some n"
  shows "(report_last_updated c = None \<longrightarrow>
            (exit (report_request k w c) = Suppressed \<longleftrightarrow> 1 < n) \<and>
            (RequestReport \<in> set (calls (report_request k w c)) \<longleftrightarrow>
               n \<le> 1 \<and> (logged_in c \<or> do_login w = Returned True)) \<and>
            calls (report_request k w c) =
              calls (report_request k w
                       (c\<lparr>report_last_updated := Some (now_gate w - microseconds_per_day)\<rparr>)))
         \<and>
         (exit (report_request k w c) = Reported \<longrightarrow>
          now_gate w' - now_done w < n * microseconds_per_day \<longrightarrow>
            report_request k w' (after (report_request k w c)) =
              \<lparr>after = after (report_request k w c), calls = [], exit = Suppressed\<rparr>)"
proof (intro conjI impI)
  assume "report_last_updated c = None"
  with assms show "exit (report_request k w c) = Suppressed \<longleftrightarrow> 1 < n"
    by (rule first_call(1))
next
  assume "report_last_updated c = None"
  with assms show "RequestReport \<in> set (calls (report_request k w c)) \<longleftrightarrow>
      n \<le> 1 \<and> (logged_in c \<or> do_login w = Returned True)"
    by (rule first_call(2))
next
  assume "report_last_updated c = None"
  with assms show "calls (report_request k w c) =
      calls (report_request k w
               (c\<lparr>report_last_updated := Some (now_gate w - microseconds_per_day)\<rparr>))"
    by (rule first_call(3))
next
  let ?r = "report_request k w c"
  assume reported: "exit ?r = Reported"
    and recent: "now_gate w' - now_done w < n * microseconds_per_day"
  have stamp: "report_last_updated (after ?r) = Some (now_done w)"
    using reported
    by (simp add: report_request_def submit_report_def
          split: outcome.splits option.splits if_splits)
  have "as_number (report_interval k (entry (after ?r))) = Some n"
    using assms by (simp add: entry_after)
  then show "report_request k w' (after ?r) =
      \<lparr>after = after ?r, calls = [], exit = Suppressed\<rparr>"
    using stamp recent by (rule suppressed_when_recent)
qed

text \<open>
  With the interval at one day the first call sends the request, and a call 80000 seconds
  after it is suppressed.
\<close>

lemma interval_check_one_day:
  "exit (report_request sample_const (sample_world 0) (sample_coordinator [(''report_scan_interval'', PInt 1)])) = Reported \<and>
   calls (report_request sample_const (sample_world 0) (sample_coordinator [(''report_scan_interval'', PInt 1)])) =
     [RequestReport] \<and>
   report_request sample_const (sample_world 80000000000)
       (after (report_request sample_const (sample_world 0) (sample_coordinator [(''report_scan_interval'', PInt 1)]))) =
     \<lparr>after = after (report_request sample_const (sample_world 0) (sample_coordinator [(''report_scan_interval'', PInt 1)])),
      calls = [], exit = Suppressed\<rparr>"
proof -
  have n: "as_number (report_interval sample_const (entry (sample_coordinator [(''report_scan_interval'', PInt 1)]))) = Some 1"
    by (simp add: report_interval_def sample_const_def sample_coordinator_def dict_get_def)
  have e: "exit (report_request sample_const (sample_world 0) (sample_coordinator [(''report_scan_interval'', PInt 1)])) =
      Reported"
    by (simp add: report_request_def submit_report_def report_interval_def sample_const_def
          sample_coordinator_def sample_world_def dict_get_def days_since_last_update_def)
  have c: "calls (report_request sample_const (sample_world 0) (sample_coordinator [(''report_scan_interval'', PInt 1)])) =
      [RequestReport]"
    by (simp add: report_request_def submit_report_def report_interval_def sample_const_def
          sample_coordinator_def sample_world_def dict_get_def days_since_last_update_def)
  have t: "now_gate (sample_world 80000000000) - now_done (sample_world 0)
      < 1 * microseconds_per_day"
    by (simp add: sample_world_def microseconds_per_day_def)
  show ?thesis
    using interval_check [OF n, of "sample_world 0" "sample_world 80000000000"] e c t
    by simp
qed

text \<open>
  With an interval of two days or more a coordinator that has never sent a report request
  never sends one: every call is suppressed and leaves \<open>report_last_updated\<close> unset, so
  the next call meets the same check.
\<close>

lemma never_sent:
  assumes "as_number (report_interval k (entry c)) = Some n"
      and "2 \<le> n"
      and "report_last_updated c = None"
  shows "list_all (\<lambda>r. r = \<lparr>after = c, calls = [], exit = Suppressed\<rparr>)
           (report_requests k ws c)"
proof (induction ws)
  case Nil
  show ?case by simp
next
  case (Cons w ws)
  have "report_request k w c = \<lparr>after = c, calls = [], exit = Suppressed\<rparr>"
    using assms by (simp add: report_request_def days_since_last_update_def)
  with Cons.IH show ?case
    by (simp add: Let_def)
qed

text \<open>
  Claim C1 at an interval of two days. The coordinator has never sent a report request, it
  is logged in and the vehicle would accept the request; the first call makes no call at
  all, and neither do calls three and thirty days later, where the claim says that the
  first call proceeds regardless of the interval.
\<close>

theorem first_report_request_never_sent:
  "report_last_updated (sample_coordinator [(''report_scan_interval'', PInt 2)]) = None \<and>
   report_request sample_const (sample_world 0)
       (sample_coordinator [(''report_scan_interval'', PInt 2)]) =
     \<lparr>after = sample_coordinator [(''report_scan_interval'', PInt 2)], calls = [],
      exit = Suppressed\<rparr> \<and>
   map calls
     (report_requests sample_const
        [sample_world 0, sample_world (3 * microseconds_per_day),
         sample_world (30 * microseconds_per_day)]
        (sample_coordinator [(''report_scan_interval'', PInt 2)])) = [[], [], []]"
  by (simp add: report_request_def report_interval_def sample_const_def Let_def
        sample_coordinator_def sample_world_def dict_get_def days_since_last_update_def)

section \<open>The timestamp of the last report request\<close>

text \<open>
  Claim C10. After a call of \<^verbatim>\<open>report_request\<close> the timestamp
  \<open>report_last_updated\<close> is the second clock reading when the call ended by a successful
  submission, and its previous value on every other path (suppressed by the interval check, login
  failed, submission refused, exception swallowed or raised). The call ends by a successful
  submission exactly when the interval check let it pass, the session was or became logged in, and
  \<^verbatim>\<open>vehicle.request_report()\<close>, the last call made, returned a true value.
\<close>

theorem report_last_updated_only_on_success:
  "report_last_updated (after (report_request k w c)) =
     (if exit (report_request k w c) = Reported then Some (now_done w)
      else report_last_updated c)
   \<and>
   (exit (report_request k w c) = Reported \<longleftrightarrow>
     (\<exists>n r. as_number (report_interval k (entry c)) = Some n \<and>
        \<not> days_since_last_update w c < n \<and>
        (logged_in c \<or> do_login w = Returned True) \<and>
        request_report w = Returned r \<and> truthy r \<and>
        calls (report_request k w c) \<noteq> [] \<and>
        last (calls (report_request k w c)) = RequestReport))"
  by (auto simp add: report_request_def submit_report_def
        split: outcome.splits option.splits)

theorem report_last_updated_only_on_success_witness:
  "report_last_updated
     (after (report_request sample_const (sample_world 5) (sample_coordinator [(''report_scan_interval'', PInt 1)]))) =
     Some 2000005 \<and>
   report_last_updated
     (after (report_request sample_const
               ((sample_world 5)\<lparr>request_report := Returned (PBool False)\<rparr>)
               (sample_coordinator [(''report_scan_interval'', PInt 1)]))) = None"
  using report_last_updated_only_on_success
    [of sample_const "sample_world 5" "sample_coordinator [(''report_scan_interval'', PInt 1)]"]
    report_last_updated_only_on_success
    [of sample_const "(sample_world 5)\<lparr>request_report := Returned (PBool False)\<rparr>"
        "sample_coordinator [(''report_scan_interval'', PInt 1)]"]
  by (simp add: report_request_def submit_report_def report_interval_def sample_const_def
        sample_coordinator_def sample_world_def dict_get_def days_since_last_update_def)

section \<open>Case-insensitive selection of the vehicle\<close>

lemma of_char_upper:
  assumes "is_lower c"
  shows "(of_char (char_upper c) :: nat) = of_char c - 32"
proof -
  have "(of_char c :: nat) - 32 < 256"
    using assms unfolding is_lower_def by linarith
  then have "((of_char c :: nat) - 32) mod 256 = of_char c - 32"
    by (rule mod_less)
  with assms show ?thesis
    by (simp add: char_upper_def)
qed

lemma upper_not_lower:
  assumes "is_lower c"
  shows "\<not> is_lower (char_upper c)"
proof -
  have "(of_char c :: nat) \<le> 122"
    using assms by (simp add: is_lower_def)
  then have "(of_char (char_upper c) :: nat) < 97"
    using of_char_upper [OF assms] by linarith
  then show ?thesis
    by (simp add: is_lower_def)
qed

lemma char_upper_inj_lower:
  assumes "is_lower a" "is_lower b" "char_upper a = char_upper b"
  shows "a = b"
proof -
  have "(of_char a :: nat) - 32 = of_char b - 32"
    using assms of_char_upper [of a] of_char_upper [of b] by simp
  moreover have "32 \<le> (of_char a :: nat)" "32 \<le> (of_char b :: nat)"
    using assms by (simp_all add: is_lower_def)
  ultimately have "(of_char a :: nat) = of_char b"
    by linarith
  then show ?thesis
    by simp
qed

lemma char_upper_eq_iff: "char_upper a = char_upper b \<longleftrightarrow> same_letter a b"
proof (cases "is_lower a"; cases "is_lower b")
  assume "is_lower a" "is_lower b"
  then show ?thesis
    using char_upper_inj_lower [of a b] upper_not_lower [of a] upper_not_lower [of b]
    by (auto simp add: same_letter_def)
next
  assume "is_lower a" "\<not> is_lower b"
  then show ?thesis
    by (auto simp add: same_letter_def char_upper_def)
next
  assume "\<not> is_lower a" "is_lower b"
  then show ?thesis
    by (auto simp add: same_letter_def char_upper_def)
next
  assume "\<not> is_lower a" "\<not> is_lower b"
  then show ?thesis
    by (auto simp add: same_letter_def char_upper_def)
qed

lemma upper_eq_iff: "upper s = upper t \<longleftrightarrow> equal_ignoring_case s t"
  unfolding upper_def equal_ignoring_case_def
proof (induction s arbitrary: t)
  case Nil
  then show ?case by auto
next
  case (Cons a s)
  then show ?case
    by (cases t) (auto simp add: char_upper_eq_iff)
qed

lemma coordinator_vin_upper:
  assumes "map_of (entry_data e) (CONF_VEHICLE k) = Some (PStr configured)"
      and "coordinator_vin k e = Inr u"
  shows "u = upper configured"
  using assms by (simp add: coordinator_vin_def)

text \<open>
  Claim C4. Let the entry configure the vehicle identifier \<open>configured\<close>, and let the
  coordinator hold the identifier its constructor derives from it. When the client's fetch
  succeeds, \<^verbatim>\<open>update\<close> returns the first vehicle of the client's list whose identifier
  equals the configured one up to letter case; the vehicle returned is in the list and
  matches; the result is \<open>None\<close> exactly when no vehicle of the list matches. When the
  fetch fails the result is \<open>None\<close>. No path of \<^verbatim>\<open>update\<close> raises.
\<close>

theorem update_selects_configured_vehicle:
  assumes "map_of (entry_data e) (CONF_VEHICLE k) = Some (PStr configured)"
      and "coordinator_vin k e = Inr (c_vin c)"
  shows "update True vs c =
           find (\<lambda>v. equal_ignoring_case (vin v) configured) vs
         \<and> (\<forall>v. update True vs c = Some v \<longrightarrow>
                v \<in> set vs \<and> equal_ignoring_case (vin v) configured)
         \<and> (update True vs c = None \<longleftrightarrow>
              (\<forall>v \<in> set vs. \<not> equal_ignoring_case (vin v) configured))
         \<and> update False vs c = None"
proof -
  have "c_vin c = upper configured"
    using assms by (rule coordinator_vin_upper)
  then have sel: "update True vs c =
      find (\<lambda>v. equal_ignoring_case (vin v) configured) vs"
    by (simp add: update_def upper_eq_iff)
  have "\<forall>v. update True vs c = Some v \<longrightarrow>
      v \<in> set vs \<and> equal_ignoring_case (vin v) configured"
    unfolding sel by (auto simp add: find_Some_iff)
  moreover have "update True vs c = None \<longleftrightarrow>
      (\<forall>v \<in> set vs. \<not> equal_ignoring_case (vin v) configured)"
    unfolding sel by (auto simp add: find_None_iff)
  moreover have "update False vs c = None"
    by (simp add: update_def)
  ultimately show ?thesis
    using sel by blast
qed

text \<open>
  A lower-case configured identifier selects the upper-case entry of the list, the second
  of two vehicles; a list without it gives \<open>None\<close>.
\<close>

theorem update_selects_configured_vehicle_witness:
  "update True [\<lparr>vin = ''WAUZZZ8V5KA000001'', charging = False\<rparr>, sample_vehicle True]
     (sample_coordinator []) = Some (sample_vehicle True)
   \<and> equal_ignoring_case (vin (sample_vehicle True)) ''wvwzzz3cz9e123456''
   \<and> update True [\<lparr>vin = ''WAUZZZ8V5KA000001'', charging = False\<rparr>] (sample_coordinator []) = None"
proof -
  have h1: "map_of (entry_data (entry (sample_coordinator []))) (CONF_VEHICLE sample_const) =
      Some (PStr ''wvwzzz3cz9e123456'')"
    by (simp add: sample_coordinator_def sample_const_def)
  have h2: "coordinator_vin sample_const (entry (sample_coordinator [])) =
      Inr (c_vin (sample_coordinator []))"
    by code_simp
  have u: "update True [\<lparr>vin = ''WAUZZZ8V5KA000001'', charging = False\<rparr>, sample_vehicle True]
      (sample_coordinator []) = Some (sample_vehicle True)"
    by code_simp
  have n: "update True [\<lparr>vin = ''WAUZZZ8V5KA000001'', charging = False\<rparr>] (sample_coordinator []) = None"
    by code_simp
  show ?thesis
    using update_selects_configured_vehicle [OF h1 h2,
        of "[\<lparr>vin = ''WAUZZZ8V5KA000001'', charging = False\<rparr>, sample_vehicle True]"] u n
    by simp
qed

section \<open>Precedence of the unit conversion settings\<close>

text \<open>
  A refresh cycle that returns an instrument list has built it from the selected vehicle
  with the arguments of \<open>dashboard_call\<close>.
\<close>

lemma async_update_data_dashboard:
  assumes "async_update_data k dashboard fetched vs w c = (c', Inr xs)"
  shows "\<exists>v. update fetched vs c = Some v \<and> xs = dashboard v (dashboard_call k (entry c))"
  using assms
  by (auto simp add: async_update_data_def Let_def
        split: option.splits if_splits exit.splits)

text \<open>
  Claim C3. The conversion mode \<^verbatim>\<open>convert_conf\<close> of a refresh cycle is the entry's
  \<^verbatim>\<open>convert\<close> option when the options hold one; otherwise the \<^verbatim>\<open>convert\<close> value of
  the entry's data when the data hold one; otherwise the Scandinavian miles mode when the
  legacy Scandinavian miles setting is true, and the no-conversion mode when it is not. The
  two flags passed to \<^verbatim>\<open>vehicle.dashboard\<close> compare this mode with the imperial and the
  Scandinavian miles mode.
\<close>

theorem convert_conf_precedence:
  "(\<forall>v. map_of (options e) (CONF_CONVERT k) = Some v \<longrightarrow> convert_conf k e = v)
   \<and> (\<forall>v. map_of (options e) (CONF_CONVERT k) = None \<longrightarrow>
          map_of (entry_data e) (CONF_CONVERT k) = Some v \<longrightarrow> convert_conf k e = v)
   \<and> (map_of (options e) (CONF_CONVERT k) = None \<longrightarrow>
      map_of (entry_data e) (CONF_CONVERT k) = None \<longrightarrow>
        convert_conf k e =
          (if truthy (dict_get (options e) (CONF_SCANDINAVIAN_MILES k)
                       (dict_get (entry_data e) (CONF_SCANDINAVIAN_MILES k) (PBool False)))
           then PStr (CONF_SCANDINAVIAN_MILES k)
           else PStr (CONF_NO_CONVERSION k)))
   \<and> miles (dashboard_call k e) = py_eq (convert_conf k e) (PStr (CONF_IMPERIAL_UNITS k))
   \<and> scandinavian_miles (dashboard_call k e) =
       py_eq (convert_conf k e) (PStr (CONF_SCANDINAVIAN_MILES k))"
  by (simp add: convert_conf_def get_convert_conf_def dict_get_def dashboard_call_def)

theorem convert_conf_precedence_witness:
  "convert_conf sample_const
     \<lparr>options = [(''convert'', PStr ''imperial'')],
      entry_data = [(''scandinavian_miles'', PBool True)]\<rparr> = PStr ''imperial''
   \<and> convert_conf sample_const
     \<lparr>options = [], entry_data = [(''convert'', PStr ''imperial''), (''scandinavian_miles'', PBool True)]\<rparr> =
       PStr ''imperial''
   \<and> convert_conf sample_const
     \<lparr>options = [], entry_data = [(''scandinavian_miles'', PBool True)]\<rparr> =
       PStr ''scandinavian_miles''
   \<and> convert_conf sample_const \<lparr>options = [], entry_data = []\<rparr> = PStr ''no_conversion''"
  using convert_conf_precedence [of "\<lparr>options = [(''convert'', PStr ''imperial'')],
      entry_data = [(''scandinavian_miles'', PBool True)]\<rparr>" sample_const]
    convert_conf_precedence [of "\<lparr>options = [], entry_data = [(''convert'', PStr ''imperial''), (''scandinavian_miles'', PBool True)]\<rparr>" sample_const]
    convert_conf_precedence [of "\<lparr>options = [], entry_data = [(''scandinavian_miles'', PBool True)]\<rparr>" sample_const]
    convert_conf_precedence [of "\<lparr>options = [], entry_data = []\<rparr>" sample_const]
  by (simp add: sample_const_def dict_get_def)

section \<open>The unique id of an entity\<close>

text \<open>
  Claim C7. The unique id of an entity is the vehicle identifier, the capability and the
  attribute it was constructed with, joined by hyphens. It does not depend on the data
  holder, so it is the same after one refresh cycle and after two, whatever instrument
  lists the cycles store.
\<close>

theorem unique_id_stable:
  "unique_id e = e_vin e @ ''-'' @ e_component e @ ''-'' @ attribute e
   \<and> unique_id (after_refresh xs e) = unique_id e
   \<and> unique_id (after_refresh ys (after_refresh xs e)) = unique_id e
   \<and> unique_id (e\<lparr>e_data := d\<rparr>) = unique_id e"
  by (simp add: unique_id_def after_refresh_def)

text \<open>
  A refresh replaces the instrument the entity resolves to; the unique id stays.
\<close>

theorem unique_id_stable_witness:
  "unique_id (sample_entity (Some [sample_instrument ''odometer'' (PInt 100) None]) ''odometer'') =
     ''WVWZZZ3CZ9E123456-sensor-odometer''
   \<and> unique_id (after_refresh [sample_instrument ''odometer'' (PInt 250) None]
        (sample_entity (Some [sample_instrument ''odometer'' (PInt 100) None]) ''odometer'')) =
     ''WVWZZZ3CZ9E123456-sensor-odometer''
   \<and> entity_instrument (sample_entity (Some [sample_instrument ''odometer'' (PInt 100) None]) ''odometer'') =
       Inr (Some (sample_instrument ''odometer'' (PInt 100) None))
   \<and> entity_instrument (after_refresh [sample_instrument ''odometer'' (PInt 250) None]
        (sample_entity (Some [sample_instrument ''odometer'' (PInt 100) None]) ''odometer'')) =
       Inr (Some (sample_instrument ''odometer'' (PInt 250) None))"
  using unique_id_stable [of "sample_entity (Some [sample_instrument ''odometer'' (PInt 100) None]) ''odometer''"
      "[sample_instrument ''odometer'' (PInt 250) None]"]
  by (simp add: sample_entity_def sample_data_def sample_instrument_def sample_vehicle_def
        sample_coordinator_def entity_instrument_def data_instrument_def matches_def
        after_refresh_def store_snapshot_def)

section \<open>The instrument lookup\<close>

lemma find_matches:
  "find (matches v cap a) xs = Some i \<Longrightarrow>
     vin (i_vehicle i) = v \<and> component i = cap \<and> attr i = a"
  by (auto simp add: find_Some_iff matches_def)




section \<open>The name of a vehicle\<close>

text \<open>
  For a naming policy that is a string or a dictionary, \<^verbatim>\<open>vehicle_name\<close> does what its
  branches say.
\<close>

lemma vehicle_name_string_policy: "names d = PStr s \<Longrightarrow> vehicle_name d v = Inr (PStr s)"
  by (simp add: vehicle_name_def)

lemma vehicle_name_map_policy:
  "names d = PDict m \<Longrightarrow>
     vehicle_name d v =
       (if vin v = [] then Inr (PStr [])
        else case map_of m (lower (vin v)) of
               Some n \<Rightarrow> Inr n
             | None \<Rightarrow> Inr (PStr (vin v)))"
  by (simp add: vehicle_name_def)

lemma vehicle_name_example:
  "vehicle_name \<lparr>vehicles = [], instruments = [], config = [],
       names = PDict [(''vin123'', PStr ''My Car'')], coordinator = None\<rparr>
     \<lparr>vin = ''VIN123'', charging = False\<rparr> = Inr (PStr ''My Car'')"
  by code_simp

text \<open>When \<^verbatim>\<open>vehicle_name\<close> raises.\<close>

lemma vehicle_name_raises_iff:
  "vehicle_name d v = Inl err \<longleftrightarrow>
     err = TypeError \<and> vin v \<noteq> [] \<and>
     (case names d of
        PStr s \<Rightarrow> False
      | PDict m \<Rightarrow> False
      | PList xs \<Rightarrow> PStr (lower (vin v)) \<in> set xs
      | _ \<Rightarrow> True)"
  by (auto simp add: vehicle_name_def list_ex_iff split: pyval.splits option.splits)

text \<open>
  Claim C5 at a configuration without a name: the data holder stores \<^verbatim>\<open>None\<close> as the
  naming policy, and \<^verbatim>\<open>vehicle_name\<close> of a vehicle with a known identifier raises
  \<^verbatim>\<open>TypeError\<close> where the claim expects the identifier.
\<close>

theorem vehicle_name_without_policy_raises:
  "data_init sample_const [(''vehicle'', PStr ''wvwzzz3cz9e123456'')] None =
     Inr \<lparr>vehicles = [], instruments = [],
          config = [(''vehicle'', PStr ''wvwzzz3cz9e123456'')],
          names = PNone, coordinator = None\<rparr>
   \<and> vehicle_name
       \<lparr>vehicles = [], instruments = [],
        config = [(''vehicle'', PStr ''wvwzzz3cz9e123456'')],
        names = PNone, coordinator = None\<rparr>
       (sample_vehicle False) = Inl TypeError"
  by (simp add: data_init_def dict_get_def sample_const_def vehicle_name_def sample_vehicle_def)

section \<open>The icon of an entity\<close>

lemma entity_instrument_attr:
  "entity_instrument e = Inr (Some i) \<Longrightarrow> attr i = attribute e"
  by (auto simp add: entity_instrument_def data_instrument_def
        split: option.splits dest: find_matches)

text \<open>
  Claim C6, as amended. Let the entity resolve to the instrument \<open>i\<close>. When the attribute
  key of \<open>i\<close> is \<^verbatim>\<open>battery_level\<close> or \<^verbatim>\<open>charging\<close>, the icon is the battery icon
  computed from the state of \<open>i\<close> and the charging flag of its vehicle; for every other
  attribute key it is the icon of \<open>i\<close>, unchanged. The attribute key of \<open>i\<close> is the
  attribute the entity was constructed with.
\<close>

theorem entity_icon_battery:
  assumes "entity_instrument e = Inr (Some i)"
  shows "(attr i = ''battery_level'' \<or> attr i = ''charging'' \<longrightarrow>
            entity_icon battery_icon e =
              (case battery_icon (state i) (charging (i_vehicle i)) of
                 Inl err \<Rightarrow> Inl err
               | Inr s \<Rightarrow> Inr (Some s)))
         \<and> (attr i \<noteq> ''battery_level'' \<and> attr i \<noteq> ''charging'' \<longrightarrow>
              entity_icon battery_icon e = Inr (icon i))
         \<and> attr i = attribute e"
  using assms entity_instrument_attr [OF assms] by (auto simp add: entity_icon_def)

theorem entity_icon_battery_witness:
  "entity_icon icon_for_battery_level
     (sample_entity (Some [sample_instrument ''battery_level'' (PInt 55) (Some ''mdi:battery'')])
        ''battery_level'') = Inr (Some ''mdi:battery-charging-60'')
   \<and> entity_icon icon_for_battery_level
     (sample_entity (Some [sample_instrument ''odometer'' (PInt 100) (Some ''mdi:speedometer'')])
        ''odometer'') = Inr (Some ''mdi:speedometer'')"
proof -
  have b: "entity_instrument
      (sample_entity (Some [sample_instrument ''battery_level'' (PInt 55) (Some ''mdi:battery'')])
         ''battery_level'') =
      Inr (Some (sample_instrument ''battery_level'' (PInt 55) (Some ''mdi:battery'')))"
    by (simp add: sample_entity_def sample_data_def sample_instrument_def sample_vehicle_def
          sample_coordinator_def entity_instrument_def data_instrument_def matches_def)
  have o: "entity_instrument
      (sample_entity (Some [sample_instrument ''odometer'' (PInt 100) (Some ''mdi:speedometer'')])
         ''odometer'') =
      Inr (Some (sample_instrument ''odometer'' (PInt 100) (Some ''mdi:speedometer'')))"
    by (simp add: sample_entity_def sample_data_def sample_instrument_def sample_vehicle_def
          sample_coordinator_def entity_instrument_def data_instrument_def matches_def)
  have v: "icon_for_battery_level (PInt 55) True = Inr ''mdi:battery-charging-60''"
    by code_simp
  show ?thesis
    using entity_icon_battery [OF b, of icon_for_battery_level]
      entity_icon_battery [OF o, of icon_for_battery_level] v
    by (simp add: sample_instrument_def sample_vehicle_def)
qed

text \<open>
  The claim as written fails for the attribute \<^verbatim>\<open>charging\<close>, which is not
  \<^verbatim>\<open>battery_level\<close>: the icon is the battery icon, not the one of the instrument.
\<close>

theorem entity_icon_charging_counterexample:
  "entity_instrument
     (sample_entity (Some [sample_instrument ''charging'' PNone (Some ''mdi:battery'')])
        ''charging'') =
     Inr (Some (sample_instrument ''charging'' PNone (Some ''mdi:battery'')))
   \<and> attr (sample_instrument ''charging'' PNone (Some ''mdi:battery'')) \<noteq> ''battery_level''
   \<and> icon (sample_instrument ''charging'' PNone (Some ''mdi:battery'')) = Some ''mdi:battery''
   \<and> entity_icon icon_for_battery_level
       (sample_entity (Some [sample_instrument ''charging'' PNone (Some ''mdi:battery'')])
          ''charging'') = Inr (Some ''mdi:battery-unknown'')"
  by (simp add: sample_entity_def sample_data_def sample_instrument_def sample_vehicle_def
        sample_coordinator_def entity_instrument_def data_instrument_def matches_def
        entity_icon_def icon_for_battery_level_def)

section \<open>The device identifier in the service schemas\<close>

text \<open>
  A dictionary schema accepts a payload exactly when every declared item validates, no
  undeclared item is forbidden and no required key is missing.
\<close>

lemma validate_items_no_errors:
  "fst (validate_items cv s p) = [] \<longleftrightarrow>
     (\<forall>(key, x) \<in> set p.
        case find_validator s key of
          None \<Rightarrow> extra s \<noteq> PREVENT_EXTRA
        | Some v \<Rightarrow> validate cv v x \<noteq> None)"
proof (induction p)
  case Nil
  then show ?case by simp
next
  case (Cons kx p)
  obtain key x where kx: "kx = (key, x)"
    by (cases kx)
  obtain errors out where rest: "validate_items cv s p = (errors, out)"
    by (cases "validate_items cv s p")
  show ?case
    using Cons.IH unfolding kx
    by (auto simp add: rest split: option.splits extra_keys.splits)
qed

lemma missing_required_empty:
  "missing_required s p = [] \<longleftrightarrow>
     (\<forall>(m, key, v) \<in> set (keys s). m = Required \<longrightarrow> map_of p key \<noteq> None)"
  by (auto simp add: missing_required_def filter_empty_conv)

lemma schema_call_accepts_iff:
  "(\<exists>out. schema_call cv s p = Inr out) \<longleftrightarrow>
     fst (validate_items cv s p) = [] \<and> missing_required s p = []"
  by (cases "validate_items cv s p") (auto simp add: schema_call_def)

lemma schema_call_required:
  assumes "schema_call cv s p = Inr out"
      and "(Required, key, v) \<in> set (keys s)"
  shows "map_of p key \<noteq> None"
proof -
  have "missing_required s p = []"
    using assms(1) schema_call_accepts_iff [of cv s p] by blast
  then show ?thesis
    using assms(2) by (auto simp add: missing_required_empty)
qed

lemma schema_call_missing_required:
  assumes "(Required, key, v) \<in> set (keys s)"
      and "map_of p key = None"
  shows "\<exists>errors. schema_call cv s p = Inl errors \<and> RequiredKeyNotProvided key \<in> set errors"
proof -
  have "RequiredKeyNotProvided key \<in> set (missing_required s p)"
    using assms by (force simp add: missing_required_def)
  then show ?thesis
    by (cases "validate_items cv s p") (auto simp add: schema_call_def)
qed

lemma schema_call_item_valid:
  assumes "schema_call cv s p = Inr out"
      and "(key, x) \<in> set p"
      and "find_validator s key = Some v"
  shows "validate cv v x \<noteq> None"
proof -
  have "fst (validate_items cv s p) = []"
    using assms(1) schema_call_accepts_iff [of cv s p] by blast
  then show ?thesis
    using assms(2,3) by (auto simp add: validate_items_no_errors)
qed

lemma validate_device_id:
  "validate cv (VolAll [CvString, VolLength 32 32]) x \<noteq> None \<longleftrightarrow>
     (\<exists>w. cv_string cv x = Some w \<and> py_len w = Some 32)"
  by (auto split: option.splits)

lemma device_id_validator:
  "find_validator (registered_schema svc) ''device_id'' =
     Some (VolAll [CvString, VolLength 32 32])"
  by (cases svc)
    (simp_all add: find_validator_def SERVICE_SET_TIMER_BASIC_SETTINGS_SCHEMA_def
       SERVICE_SET_CHARGER_MAX_CURRENT_SCHEMA_def SERVICE_UPDATE_SCHEDULE_SCHEMA_def
       SERVICE_UPDATE_PROFILE_SCHEMA_def)

lemma device_id_when_given:
  assumes "service_call cv svc p = Inr out"
      and "(''device_id'', x) \<in> set p"
  shows "\<exists>w. cv_string cv x = Some w \<and> py_len w = Some 32"
proof -
  have "validate cv (VolAll [CvString, VolLength 32 32]) x \<noteq> None"
    using assms device_id_validator [of svc]
    unfolding service_call_def by (rule schema_call_item_valid)
  then show ?thesis
    by (simp only: validate_device_id)
qed

lemma device_id_required:
  "svc = SERVICE_UPDATE_SCHEDULE \<or> svc = SERVICE_UPDATE_PROFILE \<Longrightarrow>
     (Required, ''device_id'', VolAll [CvString, VolLength 32 32])
       \<in> set (keys (registered_schema svc))"
  by (auto simp add: SERVICE_UPDATE_SCHEDULE_SCHEMA_def SERVICE_UPDATE_PROFILE_SCHEMA_def)

lemma device_id_needed:
  assumes "svc = SERVICE_UPDATE_SCHEDULE \<or> svc = SERVICE_UPDATE_PROFILE"
      and "service_call cv svc p = Inr out"
  shows "\<exists>x w. map_of p ''device_id'' = Some x \<and> cv_string cv x = Some w \<and> py_len w = Some 32"
proof -
  have "map_of p ''device_id'' \<noteq> None"
    using assms(2) device_id_required [OF assms(1)]
    unfolding service_call_def by (rule schema_call_required)
  then obtain x where x: "map_of p ''device_id'' = Some x"
    by blast
  then have "(''device_id'', x) \<in> set p"
    by (rule map_of_SomeD)
  with assms(2) have "\<exists>w. cv_string cv x = Some w \<and> py_len w = Some 32"
    by (rule device_id_when_given)
  with x show ?thesis
    by blast
qed

lemma nothing_required:
  assumes "svc = SERVICE_SET_TIMER_BASIC_SETTINGS \<or> svc = SERVICE_SET_CHARGER_MAX_CURRENT"
  shows "missing_required (registered_schema svc) p = []"
  using assms
  by (auto simp add: missing_required_def SERVICE_SET_TIMER_BASIC_SETTINGS_SCHEMA_def
        SERVICE_SET_CHARGER_MAX_CURRENT_SCHEMA_def)

lemma device_id_optional:
  assumes "svc = SERVICE_SET_TIMER_BASIC_SETTINGS \<or> svc = SERVICE_SET_CHARGER_MAX_CURRENT"
      and "service_call cv svc p = Inr out"
  shows "\<exists>out'. service_call cv svc (without ''device_id'' p) = Inr out'"
proof -
  let ?s = "registered_schema svc"
  have "fst (validate_items cv ?s p) = []"
    using assms(2) schema_call_accepts_iff [of cv ?s p] unfolding service_call_def by blast
  then have "fst (validate_items cv ?s (without ''device_id'' p)) = []"
    by (auto simp add: validate_items_no_errors without_def)
  moreover have "missing_required ?s (without ''device_id'' p) = []"
    using assms(1) by (rule nothing_required)
  ultimately show ?thesis
    unfolding service_call_def by (simp only: schema_call_accepts_iff)
qed

lemma empty_payload:
  assumes "svc = SERVICE_SET_TIMER_BASIC_SETTINGS \<or> svc = SERVICE_SET_CHARGER_MAX_CURRENT"
  shows "service_call cv svc [] = Inr []"
  using nothing_required [OF assms, of "[]"] by (simp add: service_call_def schema_call_def)

text \<open>
  Claim C2, as amended. The schemas of \<^verbatim>\<open>update_schedule\<close> and \<^verbatim>\<open>update_profile\<close>
  accept a payload only when it holds a device identifier that \<^verbatim>\<open>cv.string\<close> turns into
  a value of length 32, and reject a payload without one. Every one of the four schemas
  that accepts a payload holding a device identifier has checked it in the same way. The
  schemas of \<^verbatim>\<open>set_timer_basic_settings\<close> and \<^verbatim>\<open>set_charger_max_current\<close> accept the
  empty payload, and a payload they accept is still accepted with the device identifier
  taken out. A payload without \<^verbatim>\<open>timer_id\<close> is rejected by the schema of
  \<^verbatim>\<open>update_schedule\<close>, one without \<^verbatim>\<open>profile_id\<close> or \<^verbatim>\<open>profile_name\<close> by the
  schema of \<^verbatim>\<open>update_profile\<close>, each with the error that the key is required. The
  service function runs only on the result of an accepting schema.
\<close>

theorem service_schemas_device_id:
  "(svc = SERVICE_UPDATE_SCHEDULE \<or> svc = SERVICE_UPDATE_PROFILE \<longrightarrow>
      service_call cv svc p = Inr out \<longrightarrow>
        (\<exists>x w. map_of p ''device_id'' = Some x \<and> cv_string cv x = Some w \<and>
               py_len w = Some 32))
   \<and> (service_call cv svc p = Inr out \<longrightarrow>
        (\<forall>x. (''device_id'', x) \<in> set p \<longrightarrow>
           (\<exists>w. cv_string cv x = Some w \<and> py_len w = Some 32)))
   \<and> (svc = SERVICE_SET_TIMER_BASIC_SETTINGS \<or> svc = SERVICE_SET_CHARGER_MAX_CURRENT \<longrightarrow>
        service_call cv svc [] = Inr [] \<and>
        (service_call cv svc p = Inr out \<longrightarrow>
           (\<exists>out'. service_call cv svc (without ''device_id'' p) = Inr out')))
   \<and> (map_of p ''timer_id'' = None \<longrightarrow>
        (\<exists>errors. service_call cv SERVICE_UPDATE_SCHEDULE p = Inl errors \<and>
           RequiredKeyNotProvided ''timer_id'' \<in> set errors))
   \<and> (map_of p ''profile_id'' = None \<longrightarrow>
        (\<exists>errors. service_call cv SERVICE_UPDATE_PROFILE p = Inl errors \<and>
           RequiredKeyNotProvided ''profile_id'' \<in> set errors))
   \<and> (map_of p ''profile_name'' = None \<longrightarrow>
        (\<exists>errors. service_call cv SERVICE_UPDATE_PROFILE p = Inl errors \<and>
           RequiredKeyNotProvided ''profile_name'' \<in> set errors))
   \<and> (map_of p ''device_id'' = None \<longrightarrow>
        svc = SERVICE_UPDATE_SCHEDULE \<or> svc = SERVICE_UPDATE_PROFILE \<longrightarrow>
        (\<exists>errors. service_call cv svc p = Inl errors \<and>
           RequiredKeyNotProvided ''device_id'' \<in> set errors))"
proof (intro conjI impI allI)
  assume "svc = SERVICE_UPDATE_SCHEDULE \<or> svc = SERVICE_UPDATE_PROFILE"
    and "service_call cv svc p = Inr out"
  then show "\<exists>x w. map_of p ''device_id'' = Some x \<and> cv_string cv x = Some w \<and>
      py_len w = Some 32"
    by (rule device_id_needed)
next
  fix x
  assume "service_call cv svc p = Inr out" and "(''device_id'', x) \<in> set p"
  then show "\<exists>w. cv_string cv x = Some w \<and> py_len w = Some 32"
    by (rule device_id_when_given)
next
  assume "svc = SERVICE_SET_TIMER_BASIC_SETTINGS \<or> svc = SERVICE_SET_CHARGER_MAX_CURRENT"
  then show "service_call cv svc [] = Inr []"
    by (rule empty_payload)
next
  assume "svc = SERVICE_SET_TIMER_BASIC_SETTINGS \<or> svc = SERVICE_SET_CHARGER_MAX_CURRENT"
    and "service_call cv svc p = Inr out"
  then show "\<exists>out'. service_call cv svc (without ''device_id'' p) = Inr out'"
    by (rule device_id_optional)
next
  assume "map_of p ''timer_id'' = None"
  then show "\<exists>errors. service_call cv SERVICE_UPDATE_SCHEDULE p = Inl errors \<and>
      RequiredKeyNotProvided ''timer_id'' \<in> set errors"
    unfolding service_call_def
    by (intro schema_call_missing_required [where v = "VolIn [PInt 1, PInt 2, PInt 3]"])
      (simp_all add: SERVICE_UPDATE_SCHEDULE_SCHEMA_def)
next
  assume "map_of p ''profile_id'' = None"
  then show "\<exists>errors. service_call cv SERVICE_UPDATE_PROFILE p = Inl errors \<and>
      RequiredKeyNotProvided ''profile_id'' \<in> set errors"
    unfolding service_call_def
    by (intro schema_call_missing_required
          [where v = "VolAll [CvPositiveInt, VolRange None None True True]"])
      (simp_all add: SERVICE_UPDATE_PROFILE_SCHEMA_def)
next
  assume "map_of p ''profile_name'' = None"
  then show "\<exists>errors. service_call cv SERVICE_UPDATE_PROFILE p = Inl errors \<and>
      RequiredKeyNotProvided ''profile_name'' \<in> set errors"
    unfolding service_call_def
    by (intro schema_call_missing_required [where v = "VolAll [CvString]"])
      (simp_all add: SERVICE_UPDATE_PROFILE_SCHEMA_def)
next
  assume "map_of p ''device_id'' = None"
    and "svc = SERVICE_UPDATE_SCHEDULE \<or> svc = SERVICE_UPDATE_PROFILE"
  then show "\<exists>errors. service_call cv svc p = Inl errors \<and>
      RequiredKeyNotProvided ''device_id'' \<in> set errors"
    unfolding service_call_def
    using device_id_required [of svc]
    by (intro schema_call_missing_required) simp_all
qed

text \<open>
  A schedule update with a device identifier of 32 characters and a timer is accepted;
  without the identifier, or with one of 31 characters, it is rejected; the charger
  service accepts a payload without identifier.
\<close>

theorem service_schemas_device_id_witness:
  "service_call cv_typed SERVICE_UPDATE_SCHEDULE
     [(''device_id'', PStr ''0123456789abcdef0123456789abcdef''), (''timer_id'', PInt 2)] =
     Inr [(''device_id'', PStr ''0123456789abcdef0123456789abcdef''), (''timer_id'', PInt 2)]
   \<and> service_call cv_typed SERVICE_UPDATE_SCHEDULE [(''timer_id'', PInt 2)] =
     Inl [RequiredKeyNotProvided ''device_id'']
   \<and> service_call cv_typed SERVICE_UPDATE_SCHEDULE
     [(''device_id'', PStr ''0123456789abcdef0123456789abcde''), (''timer_id'', PInt 2)] =
     Inl [InvalidValue ''device_id'']
   \<and> service_call cv_typed SERVICE_SET_CHARGER_MAX_CURRENT [(''max_current'', PStr ''max'')] =
     Inr [(''max_current'', PStr ''max'')]
   \<and> (\<exists>w. cv_string cv_typed (PStr ''0123456789abcdef0123456789abcdef'') = Some w \<and>
          py_len w = Some 32)"
proof -
  have a: "service_call cv_typed SERVICE_UPDATE_SCHEDULE
      [(''device_id'', PStr ''0123456789abcdef0123456789abcdef''), (''timer_id'', PInt 2)] =
      Inr [(''device_id'', PStr ''0123456789abcdef0123456789abcdef''), (''timer_id'', PInt 2)]"
    by code_simp
  have b: "service_call cv_typed SERVICE_UPDATE_SCHEDULE [(''timer_id'', PInt 2)] =
      Inl [RequiredKeyNotProvided ''device_id'']"
    by code_simp
  have c: "service_call cv_typed SERVICE_UPDATE_SCHEDULE
      [(''device_id'', PStr ''0123456789abcdef0123456789abcde''), (''timer_id'', PInt 2)] =
      Inl [InvalidValue ''device_id'']"
    by code_simp
  have d: "service_call cv_typed SERVICE_SET_CHARGER_MAX_CURRENT [(''max_current'', PStr ''max'')] =
      Inr [(''max_current'', PStr ''max'')]"
    by code_simp
  show ?thesis
    using service_schemas_device_id [of SERVICE_UPDATE_SCHEDULE cv_typed
        "[(''device_id'', PStr ''0123456789abcdef0123456789abcdef''), (''timer_id'', PInt 2)]"
        "[(''device_id'', PStr ''0123456789abcdef0123456789abcdef''), (''timer_id'', PInt 2)]"]
      a b c d
    by simp
qed

text \<open>
  The claim as written fails for \<^verbatim>\<open>set_timer_basic_settings\<close>, whose schema declares
  the device identifier optional: a payload without it is accepted.
\<close>

theorem timer_settings_without_device_id_counterexample:
  "map_of [(''min_level'', PInt 50)] ''device_id'' = None
   \<and> service_call cv_typed SERVICE_SET_TIMER_BASIC_SETTINGS [(''min_level'', PInt 50)] =
       Inr [(''min_level'', PInt 50)]"
  by code_simp

end
